theory Spec2Isabelle
  imports Complex_Main
begin

section \<open>Classifier (utils.py)\<close>






subsection \<open>Python values that fail\<close>

text \<open>
  An exception raised by the Python code is a value: a function that can raise returns
  \<open>py_error + 'a\<close>, with \<open>Inl\<close> for the exception that leaves the function.
\<close>

datatype py_error = ValueError | TypeError | OverflowError | UnboundLocalError
  | AttributeError | KeyError | JSONDecodeError | DatabaseError | RequestException
  | APIError

subsection \<open>Calendar dates\<close>

text \<open>
  A \<open>datetime.date\<close> is a year, a month and a day. The difference of two dates is the
  difference of their proleptic Gregorian ordinals (\<open>date.__sub__\<close>); the ordinal is
  computed as the standard library does.
\<close>

record date =
  date_year :: int
  date_month :: int
  date_day :: int

definition is_leap :: "int \<Rightarrow> bool" where
  "is_leap y = (y mod 4 = 0 \<and> (y mod 400 = 0 \<or> y mod 100 \<noteq> 0))"

definition days_in_month :: "int \<Rightarrow> int \<Rightarrow> int" where
  "days_in_month y m =
     (if m = 2 then (if is_leap y then 29 else 28)
      else if m = 4 \<or> m = 6 \<or> m = 9 \<or> m = 11 then 30
      else 31)"

definition days_before_year :: "int \<Rightarrow> int" where
  "days_before_year y =
     (y - 1) * 365 + (y - 1) div 4 - (y - 1) div 100 + (y - 1) div 400"

fun days_before_month_common :: "nat \<Rightarrow> int" where
  "days_before_month_common 0 = 0"
| "days_before_month_common (Suc k) =
     days_before_month_common k + days_in_month 1 (int (Suc k))"

definition days_before_month :: "int \<Rightarrow> int \<Rightarrow> int" where
  "days_before_month y m =
     days_before_month_common (nat (m - 1)) + (if 2 < m \<and> is_leap y then 1 else 0)"

definition toordinal :: "date \<Rightarrow> int" where
  "toordinal d =
     days_before_year (date_year d) + days_before_month (date_year d) (date_month d)
       + date_day d"

definition valid_date :: "date \<Rightarrow> bool" where
  "valid_date d =
     (1 \<le> date_year d \<and> date_year d \<le> 9999 \<and> 1 \<le> date_month d \<and> date_month d \<le> 12 \<and>
      1 \<le> date_day d \<and> date_day d \<le> days_in_month (date_year d) (date_month d))"

text \<open>
  \<open>datetime.strptime(s, '%Y-%m-%d').date()\<close>, for a string of one-byte characters. The
  standard library matches the string against
  \<^verbatim>\<open>(\d\d\d\d)-(1[0-2]|0[1-9]|[1-9])-(3[0-1]|[1-2]\d|0[1-9]|[1-9]| [1-9])\<close>
  from its start, raises ValueError when there is no match or when characters remain
  after the match, and raises ValueError when the three numbers are not a date (year 0,
  or a day the month does not have). \<open>None\<close> stands for that ValueError.
\<close>

definition is_digit :: "char \<Rightarrow> bool" where
  "is_digit c = (c \<in> set ''0123456789'')"

definition is_digit19 :: "char \<Rightarrow> bool" where
  "is_digit19 c = (c \<in> set ''123456789'')"

definition digit_value :: "char \<Rightarrow> int" where
  "digit_value c = int (of_char c) - 48"

definition make_date :: "int \<Rightarrow> int \<Rightarrow> int \<Rightarrow> date option" where
  "make_date y m d =
     (let r = \<lparr>date_year = y, date_month = m, date_day = d\<rparr>
      in if valid_date r then Some r else None)"

fun match_month :: "string \<Rightarrow> (int \<times> string) option" where
  "match_month (c1 # c2 # c3 # rest) =
     (if c1 = CHR ''1'' \<and> c2 \<in> set ''012'' \<and> c3 = CHR ''-''
        then Some (10 + digit_value c2, rest)
      else if c1 = CHR ''0'' \<and> is_digit19 c2 \<and> c3 = CHR ''-''
        then Some (digit_value c2, rest)
      else if is_digit19 c1 \<and> c2 = CHR ''-''
        then Some (digit_value c1, c3 # rest)
      else None)"
| "match_month [c1, c2] =
     (if is_digit19 c1 \<and> c2 = CHR ''-'' then Some (digit_value c1, []) else None)"
| "match_month _ = None"

fun match_day :: "string \<Rightarrow> int option" where
  "match_day [c1, c2] =
     (if c1 = CHR ''3'' \<and> c2 \<in> set ''01'' then Some (30 + digit_value c2)
      else if c1 \<in> set ''12'' \<and> is_digit c2
        then Some (10 * digit_value c1 + digit_value c2)
      else if c1 = CHR ''0'' \<and> is_digit19 c2 then Some (digit_value c2)
      else if c1 = CHR '' '' \<and> is_digit19 c2 then Some (digit_value c2)
      else None)"
| "match_day [c1] = (if is_digit19 c1 then Some (digit_value c1) else None)"
| "match_day _ = None"

fun strptime_ymd :: "string \<Rightarrow> date option" where
  "strptime_ymd (y1 # y2 # y3 # y4 # sep # rest) =
     (if is_digit y1 \<and> is_digit y2 \<and> is_digit y3 \<and> is_digit y4 \<and> sep = CHR ''-''
      then (case match_month rest of
              None \<Rightarrow> None
            | Some (m, rest') \<Rightarrow>
                (case match_day rest' of
                   None \<Rightarrow> None
                 | Some d \<Rightarrow>
                     make_date
                       (1000 * digit_value y1 + 100 * digit_value y2
                          + 10 * digit_value y3 + digit_value y4) m d))
      else None)"
| "strptime_ymd _ = None"

text \<open>
  The argument of \<open>calculate_days_until_expiry\<close>: a string, a \<open>date\<close>, or any other
  value, for which \<open>expiry_date - today\<close> raises TypeError (None, a number, a
  \<open>datetime\<close>).
\<close>

datatype expiry_input = ExpStr string | ExpDate date | ExpOther

text \<open>utils.py, lines 7 to 14: the body of the \<open>try\<close>, with \<open>today\<close> for
  \<open>datetime.now().date()\<close>.\<close>

definition expiry_delta :: "date \<Rightarrow> expiry_input \<Rightarrow> py_error + int" where
  "expiry_delta today expiry_date_str =
     (case expiry_date_str of
        ExpStr s \<Rightarrow>
          (case strptime_ymd s of
             None \<Rightarrow> Inl ValueError
           | Some expiry_date \<Rightarrow> Inr (toordinal expiry_date - toordinal today))
      | ExpDate expiry_date \<Rightarrow> Inr (toordinal expiry_date - toordinal today)
      | ExpOther \<Rightarrow> Inl TypeError)"

text \<open>utils.py, lines 4 to 16: the \<open>except\<close> clause catches ValueError and TypeError
  and lets any other exception through.\<close>

definition calculate_days_until_expiry :: "date \<Rightarrow> expiry_input \<Rightarrow> py_error + int" where
  "calculate_days_until_expiry today expiry_date_str =
     (case expiry_delta today expiry_date_str of
        Inr days \<Rightarrow> Inr days
      | Inl e \<Rightarrow> if e = ValueError \<or> e = TypeError then Inr 0 else Inl e)"

subsection \<open>Bucketing by criticality\<close>

text \<open>
  A medicine is the ten-column row that \<open>format_medicine_summary\<close> (utils.py, lines
  163 to 179) spells out: index 0 is the id, 1 the name, 2 the stock, 3 the reorder
  point, 4 the expiry date, and so on.
\<close>

record medicine =
  med_id :: int
  med_name :: string
  current_stock :: int
  reorder_point :: int
  expiry_date :: expiry_input
  unit_price :: real
  batch_number :: "string option"
  supplier :: "string option"
  category :: "string option"
  location :: "string option"




text \<open>The priority the loop computes for one medicine, for stating the buckets.\<close>

definition days_left :: "date \<Rightarrow> expiry_input \<Rightarrow> int" where
  "days_left today x =
     (case x of
        ExpStr s \<Rightarrow>
          (case strptime_ymd s of None \<Rightarrow> 0
           | Some d \<Rightarrow> toordinal d - toordinal today)
      | ExpDate d \<Rightarrow> toordinal d - toordinal today
      | ExpOther \<Rightarrow> 0)"


section \<open>Reorder advisor (utils.py)\<close>

text \<open>
  \<open>int(x)\<close> on a number truncates towards zero. The average daily usage is a number
  that need not be whole; it is modelled as an exact real, so the rounding of double
  arithmetic and the values \<open>nan\<close> and \<open>inf\<close> are outside this model.
\<close>

definition py_int_of_real :: "real \<Rightarrow> int" where
  "py_int_of_real x = (if 0 \<le> x then \<lfloor>x\<rfloor> else \<lceil>x\<rceil>)"


section \<open>Inventory store (database.py)\<close>

text \<open>
  The two tables of \<open>init_database\<close> (database.py, lines 16 to 44). A row of
  \<open>medicines\<close> is a medicine with its two timestamps; the primary key \<open>id\<close> is the
  field \<open>med_id\<close>. A row of \<open>stock_history\<close> carries the columns that
  \<open>update_stock\<close> writes and the default \<open>changed_at\<close>; its serial \<open>id\<close> is the
  position of the row in the table. Timestamps are natural numbers.
\<close>

record medicine_row = medicine +
  created_at :: nat
  updated_at :: nat

record history_row =
  h_medicine_id :: int
  h_old_stock :: int
  h_new_stock :: int
  h_change_reason :: string
  h_changed_at :: nat

record database =
  medicines :: "medicine_row list"
  stock_history :: "history_row list"

text \<open>
  The calls \<open>update_stock\<close> makes on the database, in the order of the source: any
  of them can raise a database error (a lost connection, say). The argument
  \<open>fault\<close> of the model names the call that raises, or is \<open>None\<close> when none does.
\<close>

datatype db_call = Connect | Select | Update | Insert | Commit

text \<open>\<^verbatim>\<open>SELECT current_stock FROM medicines WHERE id = %s\<close> followed by
  \<open>fetchone\<close>: the stock of the first matching row, or \<open>None\<close>.\<close>

definition select_current_stock :: "database \<Rightarrow> int \<Rightarrow> int option" where
  "select_current_stock db medicine_id =
     (case filter (\<lambda>r. med_id r = medicine_id) (medicines db) of
        [] \<Rightarrow> None
      | r # _ \<Rightarrow> Some (current_stock r))"

text \<open>\<^verbatim>\<open>UPDATE medicines SET current_stock = %s, updated_at = CURRENT_TIMESTAMP
  WHERE id = %s\<close>: every matching row is rewritten.\<close>

definition update_current_stock :: "nat \<Rightarrow> database \<Rightarrow> int \<Rightarrow> int \<Rightarrow> database" where
  "update_current_stock now db new_stock medicine_id =
     db\<lparr>medicines :=
          map (\<lambda>r. if med_id r = medicine_id
                     then r\<lparr>current_stock := new_stock, updated_at := now\<rparr> else r)
            (medicines db)\<rparr>"

text \<open>\<^verbatim>\<open>INSERT INTO stock_history (medicine_id, old_stock, new_stock, change_reason)
  VALUES (%s, %s, %s, %s)\<close>.\<close>

definition insert_stock_history ::
  "nat \<Rightarrow> database \<Rightarrow> int \<Rightarrow> int \<Rightarrow> int \<Rightarrow> string \<Rightarrow> database" where
  "insert_stock_history now db medicine_id old_stock new_stock reason =
     db\<lparr>stock_history :=
          stock_history db
            @ [\<lparr>h_medicine_id = medicine_id, h_old_stock = old_stock,
                h_new_stock = new_stock, h_change_reason = reason, h_changed_at = now\<rparr>]\<rparr>"

text \<open>
  database.py, lines 81 to 107. The connection is not in autocommit mode: the two
  statements run in one transaction, whose changes reach the stored tables at
  \<open>conn.commit()\<close> (line 106) and are dropped with the connection when an exception
  leaves the function before that line. The model returns the exception raised, if
  any, and the stored tables after the call; \<open>tx\<close> is what the transaction sees.
\<close>

definition update_stock ::
  "db_call option \<Rightarrow> nat \<Rightarrow> database \<Rightarrow> int \<Rightarrow> int \<Rightarrow> string
     \<Rightarrow> py_error option \<times> database" where
  "update_stock fault now db medicine_id new_stock reason =
     (if fault = Some Connect then (Some DatabaseError, db)
      else if fault = Some Select then (Some DatabaseError, db)
      else
        (case select_current_stock db medicine_id of
           None \<Rightarrow> (Some ValueError, db)
         | Some old_stock \<Rightarrow>
             if fault = Some Update then (Some DatabaseError, db)
             else
               (let tx = update_current_stock now db new_stock medicine_id
                in if fault = Some Insert then (Some DatabaseError, db)
                   else
                     (let tx = insert_stock_history now tx medicine_id old_stock
                                 new_stock reason
                      in if fault = Some Commit then (Some DatabaseError, db)
                         else (None, tx)))))"

section \<open>Python values\<close>

text \<open>
  The values that reach the validators and the barcode service: \<open>None\<close>, booleans,
  integers, floats, strings, lists and dictionaries with string keys (the values of
  JSON). A float is a finite number or one of \<open>inf\<close>, \<open>-inf\<close> and \<open>nan\<close>; the
  finite ones are exact reals, so the rounding of a double is outside this model.
  Strings are ASCII text.
\<close>

datatype pyfloat = Finite real | PosInf | NegInf | NaN

datatype pyval = PNone | PBool bool | PInt int | PFloat pyfloat | PStr string
  | PList "pyval list" | PDict "(string \<times> pyval) list"

type_synonym pydict = "(string \<times> pyval) list"

text \<open>\<open>bool(x)\<close>: the truth value Python gives a value in \<open>if x\<close> and \<open>x or y\<close>.\<close>

fun truthy :: "pyval \<Rightarrow> bool" where
  "truthy PNone = False"
| "truthy (PBool b) = b"
| "truthy (PInt i) = (i \<noteq> 0)"
| "truthy (PFloat f) = (f \<noteq> Finite 0)"
| "truthy (PStr s) = (s \<noteq> [])"
| "truthy (PList xs) = (xs \<noteq> [])"
| "truthy (PDict kvs) = (kvs \<noteq> [])"


text \<open>\<open>d.get(k)\<close> and \<open>d.get(k, default)\<close>; \<open>d[k] = v\<close>, which keeps the position of
  a key that is already there; and the merge \<open>{**a, **b}\<close>.\<close>

definition dict_get :: "pydict \<Rightarrow> string \<Rightarrow> pyval" where
  "dict_get d k = (case map_of d k of None \<Rightarrow> PNone | Some v \<Rightarrow> v)"

definition dict_get_default :: "pydict \<Rightarrow> string \<Rightarrow> pyval \<Rightarrow> pyval" where
  "dict_get_default d k dflt = (case map_of d k of None \<Rightarrow> dflt | Some v \<Rightarrow> v)"

fun dict_set :: "pydict \<Rightarrow> string \<Rightarrow> pyval \<Rightarrow> pydict" where
  "dict_set [] k v = [(k, v)]"
| "dict_set ((k', v') # d) k v =
     (if k' = k then (k, v) # d else (k', v') # dict_set d k v)"

fun dict_merge :: "pydict \<Rightarrow> pydict \<Rightarrow> pydict" where
  "dict_merge a [] = a"
| "dict_merge a ((k, v) # b) = dict_merge (dict_set a k v) b"

subsection \<open>Numbers from strings\<close>

definition is_space :: "char \<Rightarrow> bool" where
  "is_space c = (of_char c \<in> {9, 10, 11, 12, 13, 28, 29, 30, 31, 32 :: nat})"

definition strip :: "string \<Rightarrow> string" where
  "strip s = rev (dropWhile is_space (rev (dropWhile is_space s)))"

text \<open>
  A run of digits in which single underscores may separate digits (\<open>1_000\<close>): it has
  a digit at each end and no two underscores in a row.
\<close>

fun digitpart_tail :: "string \<Rightarrow> bool" where
  "digitpart_tail [] = True"
| "digitpart_tail [c] = is_digit c"
| "digitpart_tail (c # c' # cs) =
     (if is_digit c then digitpart_tail (c' # cs)
      else c = CHR ''_'' \<and> is_digit c' \<and> digitpart_tail (c' # cs))"

definition is_digitpart :: "string \<Rightarrow> bool" where
  "is_digitpart s = (case s of [] \<Rightarrow> False | c # _ \<Rightarrow> is_digit c \<and> digitpart_tail s)"

definition digits_value :: "string \<Rightarrow> int" where
  "digits_value s = foldl (\<lambda>acc c. 10 * acc + digit_value c) 0 (filter is_digit s)"

definition split_sign :: "string \<Rightarrow> bool \<times> string" where
  "split_sign s =
     (case s of
        c # cs \<Rightarrow> if c = CHR ''-'' then (True, cs) else if c = CHR ''+'' then (False, cs)
                  else (False, s)
      | [] \<Rightarrow> (False, s))"

text \<open>\<open>int(s)\<close> for a string: surrounding whitespace is dropped, a sign may come
  first, and the rest is decimal digits with optional single underscores. Anything else
  raises ValueError. The interpreter's limit on the number of digits is not modelled.\<close>

definition int_of_str :: "string \<Rightarrow> py_error + int" where
  "int_of_str s =
     (let (neg, body) = split_sign (strip s)
      in if is_digitpart body
         then Inr (if neg then - digits_value body else digits_value body)
         else Inl ValueError)"

text \<open>\<open>int(x)\<close>: numbers are truncated towards zero; \<open>nan\<close> raises ValueError and
  the infinities raise OverflowError; \<open>None\<close>, lists and dictionaries raise TypeError.\<close>

fun py_int :: "pyval \<Rightarrow> py_error + int" where
  "py_int PNone = Inl TypeError"
| "py_int (PBool b) = Inr (if b then 1 else 0)"
| "py_int (PInt i) = Inr i"
| "py_int (PFloat (Finite r)) = Inr (py_int_of_real r)"
| "py_int (PFloat NaN) = Inl ValueError"
| "py_int (PFloat PosInf) = Inl OverflowError"
| "py_int (PFloat NegInf) = Inl OverflowError"
| "py_int (PStr s) = int_of_str s"
| "py_int (PList xs) = Inl TypeError"
| "py_int (PDict kvs) = Inl TypeError"

definition lower :: "string \<Rightarrow> string" where
  "lower s =
     map (\<lambda>c. if 65 \<le> (of_char c :: nat) \<and> (of_char c :: nat) \<le> 90
                then char_of (of_char c + (32 :: nat)) else c) s"

text \<open>Everything before the first character that satisfies \<open>p\<close>, and everything
  after it when there is one.\<close>

definition split_at :: "(char \<Rightarrow> bool) \<Rightarrow> string \<Rightarrow> string \<times> string option" where
  "split_at p s =
     (case dropWhile (\<lambda>c. \<not> p c) s of
        [] \<Rightarrow> (s, None)
      | _ # rest \<Rightarrow> (takeWhile (\<lambda>c. \<not> p c) s, Some rest))"

text \<open>The mantissa of a decimal literal: digits, digits with a fraction, or a fraction
  alone; its value with the number of fraction digits.\<close>

definition mantissa_of_str :: "string \<Rightarrow> (int \<times> nat) option" where
  "mantissa_of_str s =
     (case split_at (\<lambda>c. c = CHR ''.'') s of
        (ip, None) \<Rightarrow> if is_digitpart ip then Some (digits_value ip, 0) else None
      | (ip, Some fp) \<Rightarrow>
          if (ip = [] \<or> is_digitpart ip) \<and> (fp = [] \<or> is_digitpart fp)
               \<and> (ip \<noteq> [] \<or> fp \<noteq> [])
          then Some (digits_value (ip @ fp), length (filter is_digit fp))
          else None)"

definition exponent_of_str :: "string option \<Rightarrow> int option" where
  "exponent_of_str e =
     (case e of
        None \<Rightarrow> Some 0
      | Some t \<Rightarrow>
          (let (neg, body) = split_sign t
           in if is_digitpart body
              then Some (if neg then - digits_value body else digits_value body)
              else None))"

definition scale10 :: "real \<Rightarrow> int \<Rightarrow> real" where
  "scale10 x e = (if 0 \<le> e then x * 10 ^ nat e else x / 10 ^ nat (- e))"

text \<open>\<open>float(s)\<close> for a string: surrounding whitespace is dropped, a sign may come
  first, and the rest is \<open>inf\<close>, \<open>infinity\<close> or \<open>nan\<close> in any case, or a decimal
  literal with an optional exponent. Anything else raises ValueError.\<close>

definition float_of_str :: "string \<Rightarrow> py_error + pyfloat" where
  "float_of_str s =
     (let (neg, body) = split_sign (strip s)
      in if lower body = ''inf'' \<or> lower body = ''infinity''
           then Inr (if neg then NegInf else PosInf)
         else if lower body = ''nan'' then Inr NaN
         else
           (case split_at (\<lambda>c. c = CHR ''e'' \<or> c = CHR ''E'') body of
              (m, e) \<Rightarrow>
                (case (mantissa_of_str m, exponent_of_str e) of
                   (Some (digits, places), Some ex) \<Rightarrow>
                     Inr (Finite
                       (scale10 (if neg then - real_of_int digits else real_of_int digits)
                          (ex - int places)))
                 | _ \<Rightarrow> Inl ValueError)))"

text \<open>\<open>float(x)\<close>: an integer converts when it lies in the range of a double and
  raises OverflowError beyond it; \<open>None\<close>, lists and dictionaries raise TypeError.\<close>

fun py_float :: "pyval \<Rightarrow> py_error + pyfloat" where
  "py_float PNone = Inl TypeError"
| "py_float (PBool b) = Inr (Finite (if b then 1 else 0))"
| "py_float (PInt i) =
     (if \<bar>i\<bar> < 2 ^ 1024 - 2 ^ 970 then Inr (Finite (real_of_int i))
      else Inl OverflowError)"
| "py_float (PFloat f) = Inr f"
| "py_float (PStr s) = float_of_str s"
| "py_float (PList xs) = Inl TypeError"
| "py_float (PDict kvs) = Inl TypeError"

text \<open>The comparisons of a float with an integer constant: every comparison with
  \<open>nan\<close> is false.\<close>

fun float_less :: "pyfloat \<Rightarrow> int \<Rightarrow> bool" where
  "float_less (Finite r) k = (r < real_of_int k)"
| "float_less PosInf k = False"
| "float_less NegInf k = True"
| "float_less NaN k = False"

fun float_greater :: "pyfloat \<Rightarrow> int \<Rightarrow> bool" where
  "float_greater (Finite r) k = (real_of_int k < r)"
| "float_greater PosInf k = True"
| "float_greater NegInf k = False"
| "float_greater NaN k = False"

section \<open>Validators (utils.py)\<close>

text \<open>
  A validator returns the pair of Python, a flag and a message. An exception that the
  \<open>except (ValueError, TypeError)\<close> clause does not catch leaves the function.
\<close>

text \<open>utils.py, lines 58 to 68.\<close>

definition validate_price :: "pyval \<Rightarrow> py_error + bool \<times> string" where
  "validate_price price =
     (case py_float price of
        Inr price_float \<Rightarrow>
          if float_less price_float 0 then Inr (False, ''Price cannot be negative'')
          else if float_greater price_float 10000
            then Inr (False, ''Price seems unreasonably high'')
          else Inr (True, ''Valid'')
      | Inl e \<Rightarrow>
          if e = ValueError \<or> e = TypeError
          then Inr (False, ''Price must be a valid number'')
          else Inl e)"

text \<open>utils.py, lines 70 to 80.\<close>

definition validate_stock_quantity :: "pyval \<Rightarrow> py_error + bool \<times> string" where
  "validate_stock_quantity quantity =
     (case py_int quantity of
        Inr qty_int \<Rightarrow>
          if qty_int < 0 then Inr (False, ''Stock quantity cannot be negative'')
          else if 1000000 < qty_int
            then Inr (False, ''Stock quantity seems unreasonably high'')
          else Inr (True, ''Valid'')
      | Inl e \<Rightarrow>
          if e = ValueError \<or> e = TypeError
          then Inr (False, ''Stock quantity must be a valid whole number'')
          else Inl e)"

section \<open>Barcode service (barcode_service.py)\<close>

subsection \<open>Text of a value\<close>




subsection \<open>Suggested form data\<close>

text \<open>
  barcode_service.py, lines 191 to 233. The dictionary \<open>suggestions\<close> is built field
  by field; each function below is one \<open>if\<close> block of the source, taking the
  dictionary built so far and returning it with the field added or as it was.
\<close>








subsection \<open>The services the lookup calls\<close>

text \<open>
  The lookup reads three things from outside the program: the product database over
  HTTP, the completion endpoint of the language model, and the JSON parser of the
  standard library. Their answers are parameters of the model.
  \<^item> \<open>http_get barcode\<close>: \<open>requests.get\<close> raises, or returns a response with a
    status code and the value (or the exception) of \<open>response.json()\<close>.
  \<^item> \<open>ai_enhance product_name\<close> and \<open>ai_lookup barcode\<close>: the completion call for
    the prompt built from that value raises, or gives the text
    \<open>response.choices[0].message.content\<close>, which may be \<open>None\<close>.
  \<^item> \<open>json_loads s\<close>: the value \<open>json.loads(s)\<close> returns, or the exception it raises
    (\<open>JSONDecodeError\<close> for text that is not JSON).
\<close>

datatype http_result = HttpRaises | HttpResponse int "py_error + pyval"

datatype ai_result = AiRaises | AiContent "string option"

record world =
  http_get :: "string \<Rightarrow> http_result"
  ai_enhance :: "pyval \<Rightarrow> ai_result"
  ai_lookup :: "string \<Rightarrow> ai_result"
  json_loads :: "string \<Rightarrow> py_error + pyval"

subsection \<open>Searching and slicing text\<close>

text \<open>\<open>s.find(c)\<close> and \<open>s.rfind(c)\<close>: the index of the first and of the last
  occurrence of a character, or -1; and the slice \<open>s[i:j]\<close> for indices that are not
  negative, which is empty when \<open>j\<close> is not beyond \<open>i\<close>.\<close>

definition find_char :: "char \<Rightarrow> string \<Rightarrow> int" where
  "find_char c s =
     (if c \<in> set s then int (length (takeWhile (\<lambda>x. x \<noteq> c) s)) else - 1)"

definition rfind_char :: "char \<Rightarrow> string \<Rightarrow> int" where
  "rfind_char c s =
     (if c \<in> set s
      then int (length s) - 1 - int (length (takeWhile (\<lambda>x. x \<noteq> c) (rev s)))
      else - 1)"

definition slice :: "string \<Rightarrow> int \<Rightarrow> int \<Rightarrow> string" where
  "slice s i j = take (nat j - nat i) (drop (nat i) s)"

definition content_value :: "string option \<Rightarrow> pyval" where
  "content_value ai_response = (case ai_response of None \<Rightarrow> PNone | Some r \<Rightarrow> PStr r)"

subsection \<open>Basic lookup\<close>

text \<open>\<open>len(x) > 0\<close> followed by \<open>x[0]\<close>, for a value \<open>x\<close> that counts as true: the
  first element of a list, the first character of a string; a dictionary with string
  keys has no key 0, and a number has no length.\<close>

fun first_item :: "pyval \<Rightarrow> py_error + pyval" where
  "first_item (PList (x # xs)) = Inr x"
| "first_item (PStr (c # cs)) = Inr (PStr [c])"
| "first_item (PDict kvs) = Inl KeyError"
| "first_item v = Inl TypeError"

text \<open>barcode_service.py, lines 37 to 57: the body of the \<open>try\<close>.\<close>

definition lookup_barcode_basic_body :: "world \<Rightarrow> string \<Rightarrow> py_error + pyval" where
  "lookup_barcode_basic_body w barcode =
     (case http_get w barcode of
        HttpRaises \<Rightarrow> Inl RequestException
      | HttpResponse status_code body \<Rightarrow>
          if status_code = 200 then
            (case body of
               Inl e \<Rightarrow> Inl e
             | Inr (PDict data) \<Rightarrow>
                 if truthy (dict_get data ''items'') then
                   (case first_item (dict_get data ''items'') of
                      Inl e \<Rightarrow> Inl e
                    | Inr (PDict item) \<Rightarrow>
                        Inr (PDict
                          [(''barcode'', PStr barcode),
                           (''product_name'', dict_get_default item ''title'' (PStr [])),
                           (''brand'', dict_get_default item ''brand'' (PStr [])),
                           (''description'', dict_get_default item ''description'' (PStr [])),
                           (''category'', dict_get_default item ''category'' (PStr [])),
                           (''images'', dict_get_default item ''images'' (PList []))])
                    | Inr _ \<Rightarrow> Inl AttributeError)
                 else Inr PNone
             | Inr _ \<Rightarrow> Inl AttributeError)
          else Inr PNone)"

text \<open>barcode_service.py, lines 32 to 61: \<open>except Exception\<close> turns every exception
  into \<open>None\<close>.\<close>

definition lookup_barcode_basic :: "world \<Rightarrow> string \<Rightarrow> pyval" where
  "lookup_barcode_basic w barcode =
     (case lookup_barcode_basic_body w barcode of Inr v \<Rightarrow> v | Inl e \<Rightarrow> PNone)"

subsection \<open>Reading JSON out of a completion\<close>

text \<open>
  The inner \<open>try\<close> of both AI steps (lines 103 to 109 and 168 to 174), up to the
  call of \<open>json.loads\<close>. When the text is \<open>None\<close> or empty the block is skipped:
  \<open>Inr None\<close>. Otherwise \<open>json_str\<close> is assigned only when both indices differ from
  -1; \<open>end_idx\<close> is \<open>rfind\<close> plus 1 and so never -1, and when the text has no
  opening brace \<open>json_str\<close> is read unassigned, which raises UnboundLocalError.
\<close>

definition loads_embedded_json :: "world \<Rightarrow> string option \<Rightarrow> py_error + pyval option" where
  "loads_embedded_json w ai_response =
     (case ai_response of
        None \<Rightarrow> Inr None
      | Some r \<Rightarrow>
          if r = [] then Inr None
          else
            (let start_idx = find_char CHR ''{'' r;
                 end_idx = rfind_char CHR ''}'' r + 1
             in if start_idx \<noteq> - 1 \<and> end_idx \<noteq> - 1
                then (case json_loads w (slice r start_idx end_idx) of
                        Inl e \<Rightarrow> Inl e
                      | Inr v \<Rightarrow> Inr (Some v))
                else Inl UnboundLocalError))"

subsection \<open>AI enhancement\<close>

text \<open>barcode_service.py, lines 68 to 119: the body of the outer \<open>try\<close>. The inner
  \<open>except json.JSONDecodeError: pass\<close> and a skipped block both lead to the lines
  that attach the raw text as \<open>ai_analysis\<close>; merging a value that is not a
  dictionary raises TypeError.\<close>

definition enhance_with_ai_body :: "world \<Rightarrow> pydict \<Rightarrow> py_error + pyval" where
  "enhance_with_ai_body w product_info =
     (let product_name = dict_get_default product_info ''product_name'' (PStr [])
      in case ai_enhance w product_name of
           AiRaises \<Rightarrow> Inl APIError
         | AiContent ai_response \<Rightarrow>
             (case loads_embedded_json w ai_response of
                Inr (Some (PDict ai_data)) \<Rightarrow> Inr (PDict (dict_merge product_info ai_data))
              | Inr (Some _) \<Rightarrow> Inl TypeError
              | Inr None \<Rightarrow>
                  Inr (PDict (dict_set product_info ''ai_analysis''
                                (content_value ai_response)))
              | Inl e \<Rightarrow>
                  if e = JSONDecodeError
                  then Inr (PDict (dict_set product_info ''ai_analysis''
                                     (content_value ai_response)))
                  else Inl e))"

text \<open>barcode_service.py, lines 63 to 123: on any exception the product info is
  returned as it came.\<close>

definition enhance_with_ai :: "world \<Rightarrow> pydict \<Rightarrow> pyval" where
  "enhance_with_ai w product_info =
     (case enhance_with_ai_body w product_info of
        Inr v \<Rightarrow> v
      | Inl e \<Rightarrow> PDict product_info)"

subsection \<open>AI-only lookup\<close>

text \<open>The record of lines 179 to 185.\<close>

definition unknown_product :: "string \<Rightarrow> string option \<Rightarrow> pyval" where
  "unknown_product barcode ai_response =
     PDict [(''barcode'', PStr barcode),
            (''likely_medicine'', PBool False),
            (''product_name'', PStr ''Unknown Product''),
            (''confidence'', PStr ''low''),
            (''ai_response'', content_value ai_response)]"

text \<open>barcode_service.py, lines 130 to 185: the body of the outer \<open>try\<close>.\<close>

definition ai_barcode_lookup_body :: "world \<Rightarrow> string \<Rightarrow> py_error + pyval" where
  "ai_barcode_lookup_body w barcode =
     (case ai_lookup w barcode of
        AiRaises \<Rightarrow> Inl APIError
      | AiContent ai_response \<Rightarrow>
          (case loads_embedded_json w ai_response of
             Inr (Some v) \<Rightarrow> Inr v
           | Inr None \<Rightarrow> Inr (unknown_product barcode ai_response)
           | Inl e \<Rightarrow>
               if e = JSONDecodeError then Inr (unknown_product barcode ai_response)
               else Inl e))"

text \<open>barcode_service.py, lines 125 to 189: \<open>except Exception\<close> turns every
  exception into \<open>None\<close>.\<close>

definition ai_barcode_lookup :: "world \<Rightarrow> string \<Rightarrow> pyval" where
  "ai_barcode_lookup w barcode =
     (case ai_barcode_lookup_body w barcode of Inr v \<Rightarrow> v | Inl e \<Rightarrow> PNone)"

subsection \<open>Barcode resolution\<close>

text \<open>barcode_service.py, lines 12 to 30. The three functions called in the
  \<open>try\<close> return without raising, so the \<open>except\<close> clause of this function, which
  would return \<open>None\<close>, has nothing to catch. The basic lookup returns \<open>None\<close> or a
  dictionary.\<close>

definition get_medicine_info_from_barcode :: "world \<Rightarrow> string \<Rightarrow> pyval" where
  "get_medicine_info_from_barcode w barcode =
     (case lookup_barcode_basic w barcode of
        PDict product_info \<Rightarrow>
          if product_info \<noteq> [] \<and> truthy (dict_get product_info ''product_name'')
          then enhance_with_ai w product_info
          else ai_barcode_lookup w barcode
      | _ \<Rightarrow> ai_barcode_lookup w barcode)"

section \<open>Properties of the expiry computation\<close>

lemma calculate_days_until_expiry_total:
  "calculate_days_until_expiry today x = Inr (days_left today x)"
  by (simp add: calculate_days_until_expiry_def expiry_delta_def days_left_def
      split: expiry_input.splits option.splits)

text \<open>
  C9. \<open>calculate_days_until_expiry\<close> takes a \<open>date\<close> or a string in the format
  year-month-day and returns the signed number of days from today to that date: 0 for
  today itself, -1 for the day before today. For a string that does not parse, and for
  any other kind of value, it returns 0; it never raises.
\<close>

theorem days_until_expiry_signed_difference:
  "calculate_days_until_expiry today (ExpDate d) = Inr (toordinal d - toordinal today) \<and>
   (strptime_ymd s = Some d \<longrightarrow>
      calculate_days_until_expiry today (ExpStr s) = Inr (toordinal d - toordinal today)) \<and>
   calculate_days_until_expiry today (ExpDate today) = Inr 0 \<and>
   (strptime_ymd s = Some today \<longrightarrow> calculate_days_until_expiry today (ExpStr s) = Inr 0) \<and>
   (toordinal d = toordinal today - 1 \<longrightarrow>
      calculate_days_until_expiry today (ExpDate d) = Inr (- 1)) \<and>
   (strptime_ymd s = None \<longrightarrow> calculate_days_until_expiry today (ExpStr s) = Inr 0) \<and>
   calculate_days_until_expiry today ExpOther = Inr 0 \<and>
   (\<exists>n. calculate_days_until_expiry today x = Inr n)"
  by (simp add: calculate_days_until_expiry_total days_left_def)

theorem days_until_expiry_signed_difference_witness:
  "strptime_ymd ''2024-02-29'' = Some \<lparr>date_year = 2024, date_month = 2, date_day = 29\<rparr> \<and>
   toordinal \<lparr>date_year = 2024, date_month = 2, date_day = 29\<rparr>
     = toordinal \<lparr>date_year = 2024, date_month = 3, date_day = 1\<rparr> - 1 \<and>
   calculate_days_until_expiry \<lparr>date_year = 2024, date_month = 3, date_day = 1\<rparr>
     (ExpStr ''2024-02-29'') = Inr (- 1) \<and>
   calculate_days_until_expiry \<lparr>date_year = 2024, date_month = 3, date_day = 1\<rparr>
     (ExpDate \<lparr>date_year = 2024, date_month = 2, date_day = 29\<rparr>) = Inr (- 1) \<and>
   calculate_days_until_expiry \<lparr>date_year = 2024, date_month = 2, date_day = 29\<rparr>
     (ExpStr ''2024-02-29'') = Inr 0 \<and>
   strptime_ymd ''29/02/2024'' = None \<and>
   calculate_days_until_expiry \<lparr>date_year = 2024, date_month = 3, date_day = 1\<rparr>
     (ExpStr ''29/02/2024'') = Inr 0"
proof -
  let ?feb29 = "\<lparr>date_year = 2024, date_month = 2, date_day = 29\<rparr>"
  let ?mar1 = "\<lparr>date_year = 2024, date_month = 3, date_day = 1\<rparr>"
  have parse: "strptime_ymd ''2024-02-29'' = Some ?feb29"
    by code_simp
  have bad: "strptime_ymd ''29/02/2024'' = None"
    by code_simp
  have ord: "toordinal ?feb29 = toordinal ?mar1 - 1"
    by code_simp
  show ?thesis
    using parse bad ord
      days_until_expiry_signed_difference [of ?mar1 ?feb29 "''2024-02-29''"]
      days_until_expiry_signed_difference [of ?feb29 ?feb29 "''2024-02-29''"]
      days_until_expiry_signed_difference [of ?mar1 ?feb29 "''29/02/2024''"]
    by simp
qed

section \<open>Properties of the bucketing\<close>





section \<open>Properties of the reorder advisor\<close>



section \<open>Properties of the inventory store\<close>

lemma filter_key_unique:
  "distinct (map f xs) \<Longrightarrow> r \<in> set xs \<Longrightarrow> filter (\<lambda>x. f x = f r) xs = [r]"
proof (induction xs)
  case Nil
  then show ?case by simp
next
  case (Cons a xs)
  show ?case
  proof (cases "a = r")
    case True
    then have "f r \<notin> f ` set xs" using Cons.prems by simp
    then have "\<forall>x \<in> set xs. f x \<noteq> f r" by (metis imageI)
    then have "filter (\<lambda>x. f x = f r) xs = []" by (simp add: filter_empty_conv)
    with True show ?thesis by simp
  next
    case False
    then have in_xs: "r \<in> set xs" using Cons.prems by simp
    then have "f r \<in> f ` set xs" by simp
    then have "f a \<noteq> f r" using Cons.prems by auto
    then show ?thesis using Cons in_xs by simp
  qed
qed

lemma select_found:
  assumes "r \<in> set (medicines db)" "distinct (map med_id (medicines db))"
  shows "select_current_stock db (med_id r) = Some (current_stock r)"
  using filter_key_unique [of med_id "medicines db" r] assms
  by (simp add: select_current_stock_def)

lemma select_absent:
  assumes "medicine_id \<notin> med_id ` set (medicines db)"
  shows "select_current_stock db medicine_id = None"
proof -
  have "\<forall>x \<in> set (medicines db). med_id x \<noteq> medicine_id"
    using assms by (metis imageI)
  then have "filter (\<lambda>r. med_id r = medicine_id) (medicines db) = []"
    by (simp add: filter_empty_conv)
  then show ?thesis by (simp add: select_current_stock_def)
qed

lemma update_stock_faulty:
  "\<exists>e. update_stock (Some c) now db i n reason = (Some e, db)"
  by (cases c; cases "select_current_stock db i")
     (simp_all add: update_stock_def Let_def)

lemma update_stock_clean:
  "update_stock None now db i n reason =
     (case select_current_stock db i of
        None \<Rightarrow> (Some ValueError, db)
      | Some old \<Rightarrow>
          (None,
           \<lparr>medicines =
              map (\<lambda>x. if med_id x = i then x\<lparr>current_stock := n, updated_at := now\<rparr> else x)
                (medicines db),
            stock_history =
              stock_history db
                @ [\<lparr>h_medicine_id = i, h_old_stock = old, h_new_stock = n,
                    h_change_reason = reason, h_changed_at = now\<rparr>]\<rparr>))"
  by (cases "select_current_stock db i")
     (simp_all add: update_stock_def Let_def update_current_stock_def
        insert_stock_history_def)

lemma select_after_update:
  assumes "r \<in> set (medicines db)"
  shows "select_current_stock
           (db\<lparr>medicines :=
              map (\<lambda>x. if med_id x = med_id r then x\<lparr>current_stock := n, updated_at := now\<rparr> else x)
                (medicines db)\<rparr>) (med_id r) = Some n"
proof -
  have "\<And>xs. r \<in> set xs \<Longrightarrow> \<exists>y ys. filter (\<lambda>x. med_id x = med_id r)
      (map (\<lambda>x. if med_id x = med_id r then x\<lparr>current_stock := n, updated_at := now\<rparr> else x) xs)
      = y # ys \<and> current_stock y = n"
  proof -
    fix xs show "r \<in> set xs \<Longrightarrow> \<exists>y ys. filter (\<lambda>x. med_id x = med_id r)
      (map (\<lambda>x. if med_id x = med_id r then x\<lparr>current_stock := n, updated_at := now\<rparr> else x) xs)
      = y # ys \<and> current_stock y = n"
      by (induction xs) auto
  qed
  from this [OF assms] show ?thesis
    by (auto simp: select_current_stock_def)
qed


text \<open>
  C2. With the primary key unique: for every stored medicine with stock S, a call of
  \<open>update_stock\<close> that meets no database error sets the stock of that medicine to
  the new value (a second read returns it) and appends exactly one history row, which
  records S as the old stock and the new value as the new stock. For an id that is not
  stored, the call raises the not-found ValueError and the stored tables are unchanged.
  Whichever database call fails, the stored tables afterwards are either unchanged,
  with an exception raised, or hold both the new stock and the new history row.
\<close>

theorem update_stock_atomic:
  assumes "distinct (map med_id (medicines db))"
  shows
  "(r \<in> set (medicines db) \<longrightarrow>
      (\<exists>db'. update_stock None now db (med_id r) n reason = (None, db') \<and>
         medicines db' =
           map (\<lambda>x. if med_id x = med_id r then x\<lparr>current_stock := n, updated_at := now\<rparr>
                     else x) (medicines db) \<and>
         select_current_stock db' (med_id r) = Some n \<and>
         stock_history db' =
           stock_history db
             @ [\<lparr>h_medicine_id = med_id r, h_old_stock = current_stock r, h_new_stock = n,
                 h_change_reason = reason, h_changed_at = now\<rparr>])) \<and>
   (i \<notin> med_id ` set (medicines db) \<longrightarrow>
      update_stock None now db i n reason = (Some ValueError, db)) \<and>
   (\<forall>fault. \<exists>e db'. update_stock fault now db i n reason = (e, db') \<and>
      ((e \<noteq> None \<and> db' = db) \<or>
       (e = None \<and>
        medicines db' =
          map (\<lambda>x. if med_id x = i then x\<lparr>current_stock := n, updated_at := now\<rparr> else x)
            (medicines db) \<and>
        (\<exists>old. stock_history db' =
           stock_history db
             @ [\<lparr>h_medicine_id = i, h_old_stock = old, h_new_stock = n,
                 h_change_reason = reason, h_changed_at = now\<rparr>]))))"
proof (intro conjI impI allI)
  assume r: "r \<in> set (medicines db)"
  let ?db' = "\<lparr>medicines =
      map (\<lambda>x. if med_id x = med_id r then x\<lparr>current_stock := n, updated_at := now\<rparr> else x)
        (medicines db),
    stock_history = stock_history db
      @ [\<lparr>h_medicine_id = med_id r, h_old_stock = current_stock r, h_new_stock = n,
          h_change_reason = reason, h_changed_at = now\<rparr>]\<rparr>"
  have run: "update_stock None now db (med_id r) n reason = (None, ?db')"
    using select_found [OF r assms] by (simp add: update_stock_clean)
  have sel: "select_current_stock ?db' (med_id r) = Some n"
    using select_after_update [OF r] by (simp add: select_current_stock_def)
  have m: "medicines ?db' =
      map (\<lambda>x. if med_id x = med_id r then x\<lparr>current_stock := n, updated_at := now\<rparr> else x)
        (medicines db)"
    by simp
  have h: "stock_history ?db' = stock_history db
      @ [\<lparr>h_medicine_id = med_id r, h_old_stock = current_stock r, h_new_stock = n,
          h_change_reason = reason, h_changed_at = now\<rparr>]"
    by simp
  from run sel m h
  show "\<exists>db'. update_stock None now db (med_id r) n reason = (None, db') \<and>
         medicines db' =
           map (\<lambda>x. if med_id x = med_id r then x\<lparr>current_stock := n, updated_at := now\<rparr>
                     else x) (medicines db) \<and>
         select_current_stock db' (med_id r) = Some n \<and>
         stock_history db' =
           stock_history db
             @ [\<lparr>h_medicine_id = med_id r, h_old_stock = current_stock r, h_new_stock = n,
                 h_change_reason = reason, h_changed_at = now\<rparr>]"
    by blast
next
  assume "i \<notin> med_id ` set (medicines db)"
  then show "update_stock None now db i n reason = (Some ValueError, db)"
    by (simp add: update_stock_clean select_absent)
next
  fix fault
  show "\<exists>e db'. update_stock fault now db i n reason = (e, db') \<and>
      ((e \<noteq> None \<and> db' = db) \<or>
       (e = None \<and>
        medicines db' =
          map (\<lambda>x. if med_id x = i then x\<lparr>current_stock := n, updated_at := now\<rparr> else x)
            (medicines db) \<and>
        (\<exists>old. stock_history db' =
           stock_history db
             @ [\<lparr>h_medicine_id = i, h_old_stock = old, h_new_stock = n,
                 h_change_reason = reason, h_changed_at = now\<rparr>])))"
  proof (cases fault)
    case (Some c)
    obtain e where "update_stock (Some c) now db i n reason = (Some e, db)"
      using update_stock_faulty by blast
    with Some show ?thesis by simp
  next
    case None
    note no_fault = this
    show ?thesis
    proof (cases "select_current_stock db i")
      case None
      with no_fault show ?thesis by (simp add: update_stock_clean)
    next
      case (Some old)
      with no_fault show ?thesis by (simp add: update_stock_clean)
    qed
  qed
qed


theorem update_stock_atomic_witness:
  "distinct (map med_id (medicines
     \<lparr>medicines =
        [\<lparr>med_id = 7, med_name = ''Amoxicillin'', current_stock = 80, reorder_point = 10,
           expiry_date = ExpDate \<lparr>date_year = 2025, date_month = 6, date_day = 30\<rparr>,
           unit_price = 5 / 2, batch_number = None, supplier = None, category = None,
           location = None, created_at = 1, updated_at = 1\<rparr>],
      stock_history = []\<rparr>)) \<and>
   update_stock None 5
     \<lparr>medicines =
        [\<lparr>med_id = 7, med_name = ''Amoxicillin'', current_stock = 80, reorder_point = 10,
           expiry_date = ExpDate \<lparr>date_year = 2025, date_month = 6, date_day = 30\<rparr>,
           unit_price = 5 / 2, batch_number = None, supplier = None, category = None,
           location = None, created_at = 1, updated_at = 1\<rparr>],
      stock_history = []\<rparr> 7 50 ''Manual update''
   = (None,
      \<lparr>medicines =
         [\<lparr>med_id = 7, med_name = ''Amoxicillin'', current_stock = 50, reorder_point = 10,
            expiry_date = ExpDate \<lparr>date_year = 2025, date_month = 6, date_day = 30\<rparr>,
            unit_price = 5 / 2, batch_number = None, supplier = None, category = None,
            location = None, created_at = 1, updated_at = 5\<rparr>],
       stock_history =
         [\<lparr>h_medicine_id = 7, h_old_stock = 80, h_new_stock = 50,
            h_change_reason = ''Manual update'', h_changed_at = 5\<rparr>]\<rparr>) \<and>
   update_stock None 5
     \<lparr>medicines =
        [\<lparr>med_id = 7, med_name = ''Amoxicillin'', current_stock = 80, reorder_point = 10,
           expiry_date = ExpDate \<lparr>date_year = 2025, date_month = 6, date_day = 30\<rparr>,
           unit_price = 5 / 2, batch_number = None, supplier = None, category = None,
           location = None, created_at = 1, updated_at = 1\<rparr>],
      stock_history = []\<rparr> 8 50 ''Manual update''
   = (Some ValueError,
      \<lparr>medicines =
         [\<lparr>med_id = 7, med_name = ''Amoxicillin'', current_stock = 80, reorder_point = 10,
            expiry_date = ExpDate \<lparr>date_year = 2025, date_month = 6, date_day = 30\<rparr>,
            unit_price = 5 / 2, batch_number = None, supplier = None, category = None,
            location = None, created_at = 1, updated_at = 1\<rparr>],
       stock_history = []\<rparr>)"
proof -
  let ?row = "\<lparr>med_id = 7, med_name = ''Amoxicillin'', current_stock = 80, reorder_point = 10,
           expiry_date = ExpDate \<lparr>date_year = 2025, date_month = 6, date_day = 30\<rparr>,
           unit_price = 5 / 2, batch_number = None, supplier = None, category = None,
           location = None, created_at = 1, updated_at = 1\<rparr>"
  let ?db = "\<lparr>medicines = [?row], stock_history = []\<rparr>"
  have key: "distinct (map med_id (medicines ?db))"
    by simp
  have stored: "?row \<in> set (medicines ?db)"
    by simp
  have absent: "8 \<notin> med_id ` set (medicines ?db)"
    by simp
  note facts = update_stock_atomic [OF key, of ?row 5 50 "''Manual update''" 8]
  obtain db' where run: "update_stock None 5 ?db (med_id ?row) 50 ''Manual update'' = (None, db')"
    and meds: "medicines db' =
      map (\<lambda>x. if med_id x = med_id ?row then x\<lparr>current_stock := 50, updated_at := 5\<rparr>
                else x) (medicines ?db)"
    and hist: "stock_history db' =
      stock_history ?db
        @ [\<lparr>h_medicine_id = med_id ?row, h_old_stock = current_stock ?row, h_new_stock = 50,
            h_change_reason = ''Manual update'', h_changed_at = 5\<rparr>]"
    using facts stored by blast
  have "db' = \<lparr>medicines = [?row\<lparr>current_stock := 50, updated_at := 5\<rparr>],
      stock_history = [\<lparr>h_medicine_id = 7, h_old_stock = 80, h_new_stock = 50,
            h_change_reason = ''Manual update'', h_changed_at = 5\<rparr>]\<rparr>"
    using meds hist by simp
  with run have first: "update_stock None 5 ?db 7 50 ''Manual update''
      = (None, \<lparr>medicines = [?row\<lparr>current_stock := 50, updated_at := 5\<rparr>],
      stock_history = [\<lparr>h_medicine_id = 7, h_old_stock = 80, h_new_stock = 50,
            h_change_reason = ''Manual update'', h_changed_at = 5\<rparr>]\<rparr>)"
    by simp
  have second: "update_stock None 5 ?db 8 50 ''Manual update'' = (Some ValueError, ?db)"
    using facts absent by blast
  show ?thesis
    using key first second by simp
qed

section \<open>Behaviour of the validators at the edge of the float range\<close>

text \<open>
  C10. The claim is that the two validators never raise and accept exactly the inputs
  that convert to a number within their bounds. The code departs from it on three
  inputs: \<open>validate_price\<close> accepts \<open>nan\<close>, given as a float or as the string
  \<open>nan\<close>, although it is no number between 0 and 10000; \<open>validate_price\<close> raises
  OverflowError on an integer beyond the range of a double; and
  \<open>validate_stock_quantity\<close> raises OverflowError on an infinite float.
\<close>

theorem validators_nan_and_overflow:
  "validate_price (PFloat NaN) = Inr (True, ''Valid'') \<and>
   validate_price (PStr ''nan'') = Inr (True, ''Valid'') \<and>
   validate_price (PInt (10 ^ 400)) = Inl OverflowError \<and>
   validate_stock_quantity (PFloat PosInf) = Inl OverflowError \<and>
   validate_stock_quantity (PStr ''1000000'') = Inr (True, ''Valid'') \<and>
   validate_stock_quantity (PStr ''1000001'')
     = Inr (False, ''Stock quantity seems unreasonably high'') \<and>
   validate_price (PStr ''abc'') = Inr (False, ''Price must be a valid number'')"
  by code_simp

section \<open>Properties of the suggested form data\<close>













section \<open>Properties of barcode resolution\<close>

lemma enhance_with_ai_is_dict: "\<exists>d. enhance_with_ai w product_info = PDict d"
  by (auto simp: enhance_with_ai_def enhance_with_ai_body_def Let_def
      split: sum.splits ai_result.splits option.splits pyval.splits)

lemma lookup_barcode_basic_raises:
  "http_get w barcode = HttpRaises \<Longrightarrow> lookup_barcode_basic w barcode = PNone"
  by (simp add: lookup_barcode_basic_def lookup_barcode_basic_body_def)

lemma lookup_barcode_basic_no_items:
  "http_get w barcode = HttpResponse 200 (Inr (PDict [(''items'', PList [])]))
     \<Longrightarrow> lookup_barcode_basic w barcode = PNone"
  by (simp add: lookup_barcode_basic_def lookup_barcode_basic_body_def dict_get_def)

lemma ai_barcode_lookup_raises:
  "ai_lookup w barcode = AiRaises \<Longrightarrow> ai_barcode_lookup w barcode = PNone"
  by (simp add: ai_barcode_lookup_def ai_barcode_lookup_body_def)

lemma loads_embedded_json_congruent:
  "json_loads w' = json_loads w \<Longrightarrow> loads_embedded_json w' r = loads_embedded_json w r"
  by (cases r) (simp_all add: loads_embedded_json_def Let_def)

lemma ai_barcode_lookup_congruent:
  "ai_lookup w' = ai_lookup w \<Longrightarrow> json_loads w' = json_loads w
     \<Longrightarrow> ai_barcode_lookup w' barcode = ai_barcode_lookup w barcode"
  by (cases "ai_lookup w barcode")
     (simp_all add: ai_barcode_lookup_def ai_barcode_lookup_body_def
        loads_embedded_json_congruent [of w' w])

lemma resolution_without_basic_info:
  "lookup_barcode_basic w barcode = PNone
     \<Longrightarrow> get_medicine_info_from_barcode w barcode = ai_barcode_lookup w barcode"
  by (simp add: get_medicine_info_from_barcode_def)

lemma resolution_none:
  assumes "get_medicine_info_from_barcode w barcode = PNone"
  shows "ai_barcode_lookup w barcode = PNone"
proof (cases "\<exists>d. lookup_barcode_basic w barcode = PDict d \<and> d \<noteq> []
    \<and> truthy (dict_get d ''product_name'')")
  case True
  then obtain d where "lookup_barcode_basic w barcode = PDict d" "d \<noteq> []"
    "truthy (dict_get d ''product_name'')" by blast
  then have "get_medicine_info_from_barcode w barcode = enhance_with_ai w d"
    by (simp add: get_medicine_info_from_barcode_def)
  with assms enhance_with_ai_is_dict [of w d] show ?thesis by auto
next
  case False
  then have "get_medicine_info_from_barcode w barcode = ai_barcode_lookup w barcode"
    by (auto simp: get_medicine_info_from_barcode_def split: pyval.splits)
  with assms show ?thesis by simp
qed

lemma ai_barcode_lookup_empty:
  "ai_lookup w barcode = AiContent r \<Longrightarrow> r = None \<or> r = Some []
     \<Longrightarrow> ai_barcode_lookup w barcode = unknown_product barcode r"
  by (auto simp: ai_barcode_lookup_def ai_barcode_lookup_body_def loads_embedded_json_def)

lemma rfind_char_succ: "rfind_char c s + 1 \<noteq> - 1"
  using length_takeWhile_le [of "\<lambda>x. x \<noteq> c" "rev s"]
  by (simp add: rfind_char_def)

lemma find_char_found: "c \<in> set s \<Longrightarrow> find_char c s \<noteq> - 1"
  by (simp add: find_char_def)

lemma ai_barcode_lookup_bad_json:
  assumes "ai_lookup w barcode = AiContent (Some t)" "CHR ''{'' \<in> set t"
    and "json_loads w (slice t (find_char CHR ''{'' t) (rfind_char CHR ''}'' t + 1))
           = Inl JSONDecodeError"
  shows "ai_barcode_lookup w barcode = unknown_product barcode (Some t)"
proof -
  from assms(2) have ne: "t \<noteq> []" by auto
  have "loads_embedded_json w (Some t) = Inl JSONDecodeError"
    using ne assms(3) find_char_found [OF assms(2)] rfind_char_succ [of "CHR ''}''" t]
    by (simp add: loads_embedded_json_def Let_def)
  then show ?thesis
    using assms(1) by (simp add: ai_barcode_lookup_def ai_barcode_lookup_body_def)
qed


text \<open>
  C8, as stated, at two inputs. First, a request that raises and an answer without
  items, each with a completion call that raises, both end in \<open>None\<close>: the outcome
  does not separate an error while fetching from an absence of data. Second, a
  completion in plain prose, with no brace in it, does not give the record for an
  unknown product: the AI-only step returns \<open>None\<close>.
\<close>

theorem barcode_resolution_counterexample:
  "get_medicine_info_from_barcode
     \<lparr>http_get = (\<lambda>code. HttpRaises), ai_enhance = (\<lambda>name. AiRaises),
      ai_lookup = (\<lambda>code. AiRaises), json_loads = (\<lambda>text. Inl JSONDecodeError)\<rparr>
     ''0123456789012'' = PNone \<and>
   get_medicine_info_from_barcode
     \<lparr>http_get = (\<lambda>code. HttpResponse 200 (Inr (PDict [(''items'', PList [])]))),
      ai_enhance = (\<lambda>name. AiRaises),
      ai_lookup = (\<lambda>code. AiRaises), json_loads = (\<lambda>text. Inl JSONDecodeError)\<rparr>
     ''0123456789012'' = PNone \<and>
   ai_barcode_lookup
     \<lparr>http_get = (\<lambda>code. HttpRaises), ai_enhance = (\<lambda>name. AiRaises),
      ai_lookup = (\<lambda>code. AiContent (Some ''I cannot identify this product.'')),
      json_loads = (\<lambda>text. Inl JSONDecodeError)\<rparr>
     ''0123456789012'' = PNone \<and>
   ai_barcode_lookup
     \<lparr>http_get = (\<lambda>code. HttpRaises), ai_enhance = (\<lambda>name. AiRaises),
      ai_lookup = (\<lambda>code. AiContent (Some ''I cannot identify this product.'')),
      json_loads = (\<lambda>text. Inl JSONDecodeError)\<rparr>
     ''0123456789012''
     \<noteq> unknown_product ''0123456789012'' (Some ''I cannot identify this product.'')"
  by (simp add: get_medicine_info_from_barcode_def lookup_barcode_basic_def
      lookup_barcode_basic_body_def ai_barcode_lookup_def ai_barcode_lookup_body_def
      loads_embedded_json_def find_char_def rfind_char_def dict_get_def
      unknown_product_def Let_def)

text \<open>
  C8, as the code has it. Whatever the services answer, barcode resolution returns a
  value: a result or \<open>None\<close>. It returns \<open>None\<close> only when the basic lookup gave no
  product name and the AI-only step returned \<open>None\<close>, and it does so whenever the
  request to the product database and the completion call both raise. The outcome does
  not tell a failed request from an answer without items: with the same completion
  and the same parser, both give the same result. When the AI-only completion is
  \<open>None\<close> or empty, or holds an opening brace and the text from its first opening
  brace to its last closing brace is not JSON, the step returns the record with the
  barcode, the product name \<open>Unknown Product\<close>, the confidence \<open>low\<close> and the raw
  text of the completion.
\<close>

theorem barcode_resolution_outcomes:
  "(get_medicine_info_from_barcode w barcode = PNone \<longrightarrow>
      ai_barcode_lookup w barcode = PNone \<and>
      (\<forall>d. lookup_barcode_basic w barcode = PDict d \<longrightarrow>
         \<not> truthy (dict_get d ''product_name''))) \<and>
   (http_get w barcode = HttpRaises \<and> ai_lookup w barcode = AiRaises \<longrightarrow>
      get_medicine_info_from_barcode w barcode = PNone) \<and>
   (http_get w barcode = HttpRaises \<and>
    http_get w' barcode = HttpResponse 200 (Inr (PDict [(''items'', PList [])])) \<and>
    ai_lookup w' = ai_lookup w \<and> json_loads w' = json_loads w \<longrightarrow>
      get_medicine_info_from_barcode w' barcode = get_medicine_info_from_barcode w barcode) \<and>
   (ai_lookup w barcode = AiContent r \<and> (r = None \<or> r = Some []) \<longrightarrow>
      ai_barcode_lookup w barcode = unknown_product barcode r) \<and>
   (ai_lookup w barcode = AiContent (Some t) \<and> CHR ''{'' \<in> set t \<and>
    json_loads w (slice t (find_char CHR ''{'' t) (rfind_char CHR ''}'' t + 1))
      = Inl JSONDecodeError \<longrightarrow>
      ai_barcode_lookup w barcode = unknown_product barcode (Some t)) \<and>
   unknown_product barcode r =
     PDict [(''barcode'', PStr barcode), (''likely_medicine'', PBool False),
            (''product_name'', PStr ''Unknown Product''), (''confidence'', PStr ''low''),
            (''ai_response'', case r of None \<Rightarrow> PNone | Some text \<Rightarrow> PStr text)]"
proof (intro conjI impI allI)
  assume none: "get_medicine_info_from_barcode w barcode = PNone"
  then show "ai_barcode_lookup w barcode = PNone"
    by (rule resolution_none)
  fix d
  assume basic: "lookup_barcode_basic w barcode = PDict d"
  show "\<not> truthy (dict_get d ''product_name'')"
  proof
    assume named: "truthy (dict_get d ''product_name'')"
    then have "d \<noteq> []" by (auto simp: dict_get_def)
    with basic named
    have "get_medicine_info_from_barcode w barcode = enhance_with_ai w d"
      by (simp add: get_medicine_info_from_barcode_def)
    with none enhance_with_ai_is_dict [of w d] show False by auto
  qed
next
  assume "http_get w barcode = HttpRaises \<and> ai_lookup w barcode = AiRaises"
  then show "get_medicine_info_from_barcode w barcode = PNone"
    by (simp add: resolution_without_basic_info lookup_barcode_basic_raises
        ai_barcode_lookup_raises)
next
  assume h: "http_get w barcode = HttpRaises \<and>
    http_get w' barcode = HttpResponse 200 (Inr (PDict [(''items'', PList [])])) \<and>
    ai_lookup w' = ai_lookup w \<and> json_loads w' = json_loads w"
  then have "get_medicine_info_from_barcode w barcode = ai_barcode_lookup w barcode"
    and "get_medicine_info_from_barcode w' barcode = ai_barcode_lookup w' barcode"
    by (simp_all add: resolution_without_basic_info lookup_barcode_basic_raises
        lookup_barcode_basic_no_items)
  with h show "get_medicine_info_from_barcode w' barcode
      = get_medicine_info_from_barcode w barcode"
    by (simp add: ai_barcode_lookup_congruent [of w' w])
next
  assume "ai_lookup w barcode = AiContent r \<and> (r = None \<or> r = Some [])"
  then show "ai_barcode_lookup w barcode = unknown_product barcode r"
    using ai_barcode_lookup_empty [of w barcode r] by blast
next
  assume "ai_lookup w barcode = AiContent (Some t) \<and> CHR ''{'' \<in> set t \<and>
    json_loads w (slice t (find_char CHR ''{'' t) (rfind_char CHR ''}'' t + 1))
      = Inl JSONDecodeError"
  then show "ai_barcode_lookup w barcode = unknown_product barcode (Some t)"
    using ai_barcode_lookup_bad_json [of w barcode t] by blast
next
  show "unknown_product barcode r =
     PDict [(''barcode'', PStr barcode), (''likely_medicine'', PBool False),
            (''product_name'', PStr ''Unknown Product''), (''confidence'', PStr ''low''),
            (''ai_response'', case r of None \<Rightarrow> PNone | Some text \<Rightarrow> PStr text)]"
    by (simp add: unknown_product_def content_value_def)
qed

theorem barcode_resolution_outcomes_witness:
  "get_medicine_info_from_barcode
     \<lparr>http_get = (\<lambda>code. HttpRaises), ai_enhance = (\<lambda>name. AiRaises),
      ai_lookup = (\<lambda>code. AiRaises), json_loads = (\<lambda>text. Inl JSONDecodeError)\<rparr>
     ''0123456789012'' = PNone \<and>
   get_medicine_info_from_barcode
     \<lparr>http_get = (\<lambda>code. HttpResponse 200 (Inr (PDict [(''items'', PList [])]))),
      ai_enhance = (\<lambda>name. AiRaises),
      ai_lookup = (\<lambda>code. AiRaises), json_loads = (\<lambda>text. Inl JSONDecodeError)\<rparr>
     ''0123456789012'' = PNone \<and>
   ai_barcode_lookup
     \<lparr>http_get = (\<lambda>code. HttpRaises), ai_enhance = (\<lambda>name. AiRaises),
      ai_lookup = (\<lambda>code. AiContent (Some ''Perhaps {aspirin?}'')),
      json_loads = (\<lambda>text. Inl JSONDecodeError)\<rparr>
     ''0123456789012''
     = PDict [(''barcode'', PStr ''0123456789012''), (''likely_medicine'', PBool False),
              (''product_name'', PStr ''Unknown Product''), (''confidence'', PStr ''low''),
              (''ai_response'', PStr ''Perhaps {aspirin?}'')] \<and>
   ai_barcode_lookup
     \<lparr>http_get = (\<lambda>code. HttpRaises), ai_enhance = (\<lambda>name. AiRaises),
      ai_lookup = (\<lambda>code. AiContent None),
      json_loads = (\<lambda>text. Inl JSONDecodeError)\<rparr>
     ''0123456789012''
     = PDict [(''barcode'', PStr ''0123456789012''), (''likely_medicine'', PBool False),
              (''product_name'', PStr ''Unknown Product''), (''confidence'', PStr ''low''),
              (''ai_response'', PNone)]"
proof -
  let ?down = "\<lparr>http_get = (\<lambda>code. HttpRaises), ai_enhance = (\<lambda>name. AiRaises),
      ai_lookup = (\<lambda>code. AiRaises), json_loads = (\<lambda>text. Inl JSONDecodeError)\<rparr>"
  let ?miss = "\<lparr>http_get = (\<lambda>code. HttpResponse 200 (Inr (PDict [(''items'', PList [])]))),
      ai_enhance = (\<lambda>name. AiRaises),
      ai_lookup = (\<lambda>code. AiRaises), json_loads = (\<lambda>text. Inl JSONDecodeError)\<rparr>"
  let ?prose = "\<lparr>http_get = (\<lambda>code. HttpRaises), ai_enhance = (\<lambda>name. AiRaises),
      ai_lookup = (\<lambda>code. AiContent (Some ''Perhaps {aspirin?}'')),
      json_loads = (\<lambda>text. Inl JSONDecodeError)\<rparr>"
  let ?silent = "\<lparr>http_get = (\<lambda>code. HttpRaises), ai_enhance = (\<lambda>name. AiRaises),
      ai_lookup = (\<lambda>code. AiContent None),
      json_loads = (\<lambda>text. Inl JSONDecodeError)\<rparr>"
  let ?code = "''0123456789012''"
  have both_fail: "get_medicine_info_from_barcode ?down ?code = PNone"
    using barcode_resolution_outcomes [of ?down ?code ?miss None "[]"] by simp
  have same: "get_medicine_info_from_barcode ?miss ?code
      = get_medicine_info_from_barcode ?down ?code"
    using barcode_resolution_outcomes [of ?down ?code ?miss None "[]"] by simp
  have brace: "CHR ''{'' \<in> set ''Perhaps {aspirin?}''"
    by simp
  have minimal: "ai_barcode_lookup ?prose ?code
      = unknown_product ?code (Some ''Perhaps {aspirin?}'')"
    using barcode_resolution_outcomes [of ?prose ?code ?prose None "''Perhaps {aspirin?}''"]
      brace by simp
  have silent: "ai_barcode_lookup ?silent ?code = unknown_product ?code None"
    using barcode_resolution_outcomes [of ?silent ?code ?silent None "[]"] by simp
  show ?thesis
    using both_fail same minimal silent
    by (simp add: unknown_product_def content_value_def)
qed

section \<open>Properties of the classifier\<close>











end
